theory Spec2Isabelle
  imports Complex_Main "HOL-Library.Word"
begin

section \<open>Run metadata: the settings builder of analysis.hh\<close>

text \<open>
  A \<open>SimSetting\<close> is a name/text pair of strings. The two-argument constructor stores
  both strings as they are.
\<close>

record SimSetting =
  setting_name :: string
  setting_text :: string

type_synonym SimSettingList = "SimSetting list"

text \<open>\<open>detail::AddSetting\<close>: \<open>list.emplace_back(name, text)\<close>.\<close>

definition AddSetting :: "SimSettingList \<Rightarrow> string \<Rightarrow> string \<Rightarrow> SimSettingList" where
  "AddSetting list name txt = list @ [\<lparr>setting_name = name, setting_text = txt\<rparr>]"

text \<open>
  \<open>Settings(names, texts)\<close> on two vectors: the empty list when the sizes differ or one
  of them is zero, otherwise the loop \<open>for (i = 0; i < name_count; ++i)\<close> over both
  vectors. Inside the loop \<open>i < name_count = text_count\<close>, so both reads are in range.
\<close>

definition Settings :: "string list \<Rightarrow> string list \<Rightarrow> SimSettingList" where
  "Settings names texts =
     (let name_count = length names; text_count = length texts in
      if name_count \<noteq> text_count \<or> name_count = 0 \<or> text_count = 0 then []
      else fold (\<lambda>i out. AddSetting out (names ! i) (texts ! i)) [0..<name_count] [])"

text \<open>
  \<open>std::to_string\<close> on an unsigned integer: its decimal digits, most significant first,
  no sign and no leading zero (\<open>0\<close> is rendered as one digit).
\<close>

function to_string :: "nat \<Rightarrow> string" where
  "to_string n =
     (if n < 10 then [''0123456789'' ! n]
      else to_string (n div 10) @ [''0123456789'' ! (n mod 10)])"
  by pat_completeness auto
termination
  by (relation "measure (\<lambda>n. n)") auto

declare to_string.simps [simp del]

text \<open>
  \<open>IndexedSettings(name, texts, starting_index)\<close>. The index is a \<open>std::size_t\<close>, 64 bits
  wide on the LP64 platforms the simulation is built for, so \<open>starting_index + i\<close> is
  computed modulo \<open>2 ^ 64\<close>.
\<close>

type_synonym size_t = "64 word"

definition IndexedSettings :: "string \<Rightarrow> string list \<Rightarrow> size_t \<Rightarrow> SimSettingList" where
  "IndexedSettings name texts starting_index =
     (let text_count = length texts in
      if text_count = 0 then []
      else fold (\<lambda>i out.
                   AddSetting out (name @ to_string (unat (starting_index + of_nat i))) (texts ! i))
             [0..<text_count] [])"

section \<open>The default table schema of analysis.hh\<close>

datatype DataKeyType = Single | Vector

type_synonym DataKey = string

definition DefaultDataKeyList :: "DataKey list" where
  "DefaultDataKeyList =
     [''NumHits'',

      ''Hit_energy'', ''Hit_time'', ''Hit_detId'',
      ''Hit_particlePdgId'', ''Hit_G4TrackId'', ''Hit_G4ParentTrackId'',
      ''Hit_x'', ''Hit_y'', ''Hit_z'',
      ''Hit_particleEnergy'', ''Hit_particlePx'', ''Hit_particlePy'', ''Hit_particlePz'',
      ''Hit_weight'',

      ''NumGenParticles'',

      ''GenParticle_index'', ''GenParticle_G4index'', ''GenParticle_pdgid'', ''GenParticle_status'',
      ''GenParticle_time'', ''GenParticle_x'', ''GenParticle_y'', ''GenParticle_z'',
      ''GenParticle_energy'', ''GenParticle_px'', ''GenParticle_py'', ''GenParticle_pz'',
      ''GenParticle_mo1'', ''GenParticle_mo2'', ''GenParticle_dau1'', ''GenParticle_dau2'',
      ''GenParticle_mass'', ''GenParticle_pt'', ''GenParticle_eta'', ''GenParticle_phi'',

      ''COSMIC_EVENT_ID'',

      ''COSMIC_CORE_X'',
      ''COSMIC_CORE_Y'',

      ''COSMIC_GEN_PRIMARY_ENERGY'',
      ''COSMIC_GEN_THETA'',
      ''COSMIC_GEN_PHI'',
      ''COSMIC_GEN_FIRST_HEIGHT'',
      ''COSMIC_GEN_ELECTRON_COUNT'',
      ''COSMIC_GEN_MUON_COUNT'',
      ''COSMIC_GEN_HADRON_COUNT'',
      ''COSMIC_GEN_PRIMARY_ID'',

      ''EXTRA_11'', ''EXTRA_12'', ''EXTRA_13'', ''EXTRA_14'', ''EXTRA_15'']"

definition DefaultDataKeyTypeList :: "DataKeyType list" where
  "DefaultDataKeyTypeList =
     [Single,

      Vector, Vector, Vector, Vector, Vector, Vector, Vector,
      Vector, Vector, Vector, Vector, Vector, Vector, Vector,

      Single,

      Vector, Vector, Vector, Vector, Vector, Vector, Vector, Vector, Vector, Vector,
      Vector, Vector, Vector, Vector, Vector, Vector, Vector, Vector, Vector, Vector,

      Vector, Vector, Vector, Vector, Vector, Vector, Vector, Vector,
      Vector, Vector, Vector, Vector, Vector, Vector, Vector, Vector]"

section \<open>Hits and columnar tables: tracking.hh and the conversions\<close>

text \<open>
  A \<open>double\<close> is modelled as a real number: the conversions only copy and compare values, so
  the model is exact on the finite values (a NaN, for which every comparison is false, is
  not represented). The \<open>int\<close> fields are pushed into \<open>double\<close> columns, which is exact for
  32-bit integers.
\<close>

type_synonym DataEntry = "real list"
type_synonym DataEntryList = "DataEntry list"
type_synonym NameToDataMap = "string \<rightharpoonup> real"

text \<open>
  \<open>G4LorentzVector\<close>: three space components and a time component; \<open>px()\<close>, \<open>py()\<close>, \<open>pz()\<close>
  and \<open>e()\<close> are other names of \<open>x()\<close>, \<open>y()\<close>, \<open>z()\<close> and \<open>t()\<close>.
\<close>

record LorentzVector =
  lv_x :: real
  lv_y :: real
  lv_z :: real
  lv_t :: real

abbreviation (input) lv_px :: "LorentzVector \<Rightarrow> real" where "lv_px \<equiv> lv_x"
abbreviation (input) lv_py :: "LorentzVector \<Rightarrow> real" where "lv_py \<equiv> lv_y"
abbreviation (input) lv_pz :: "LorentzVector \<Rightarrow> real" where "lv_pz \<equiv> lv_z"
abbreviation (input) lv_e :: "LorentzVector \<Rightarrow> real" where "lv_e \<equiv> lv_t"

record ParticleDefinition =
  ParticleName :: string
  PDGEncoding :: int

record Hit =
  particle :: ParticleDefinition
  trackID :: int
  parentID :: int
  chamberID :: string
  deposit :: real
  position :: LorentzVector
  momentum :: LorentzVector

definition GetPDGEncoding :: "Hit \<Rightarrow> int" where
  "GetPDGEncoding hit = PDGEncoding (particle hit)"

text \<open>A hit collection is the ordered sequence of the hits of one event.\<close>

type_synonym HitCollection = "Hit list"

text \<open>
  What a conversion can do other than return a table: \<open>std::stold\<close> throws
  \<open>std::invalid_argument\<close> or \<open>std::out_of_range\<close>, and an unchecked \<open>operator[]\<close> beyond the
  size of a vector is undefined behaviour, kept apart here as \<open>IndexOutOfBounds\<close>.
\<close>

datatype error = InvalidArgument | OutOfRange | IndexOutOfBounds

definition at_index :: "'a list \<Rightarrow> nat \<Rightarrow> error + 'a" where
  "at_index xs i = (if i < length xs then Inr (xs ! i) else Inl IndexOutOfBounds)"

subsection \<open>The chamber mappings\<close>

text \<open>
  \<open>std::stold\<close> belongs to the C++ standard library. It throws \<open>std::invalid_argument\<close>
  when no conversion can be performed: after optional leading white space and an optional
  sign, the text must start with a digit, with a point followed by a digit, or with
  \<open>inf\<close> or \<open>nan\<close> in any letter case. The value of the longest numeric prefix is rounded
  by the library and then narrowed to the \<open>double\<close> of the column, so it is a parameter
  \<open>strtold\<close> here, \<open>None\<close> standing for a value out of the range of \<open>long double\<close>
  (\<open>std::out_of_range\<close>).
\<close>

definition isspace :: "char \<Rightarrow> bool" where
  "isspace c = (c \<in> set [CHR '' '', CHR 0x09, CHR 0x0A, CHR 0x0B, CHR 0x0C, CHR 0x0D])"

definition isdigit :: "char \<Rightarrow> bool" where
  "isdigit c = (c \<in> set ''0123456789'')"

definition tolower :: "char \<Rightarrow> char" where
  "tolower c =
     (case map_of (zip ''ABCDEFGHIJKLMNOPQRSTUVWXYZ'' ''abcdefghijklmnopqrstuvwxyz'') c of
        Some l \<Rightarrow> l
      | None \<Rightarrow> c)"

definition has_numeric_prefix :: "string \<Rightarrow> bool" where
  "has_numeric_prefix str =
     (let t = dropWhile isspace str;
          u = (case t of [] \<Rightarrow> t | c # r \<Rightarrow> if c = CHR ''+'' \<or> c = CHR ''-'' then r else t)
      in case u of
           [] \<Rightarrow> False
         | d # r \<Rightarrow>
             isdigit d \<or>
             (d = CHR ''.'' \<and> (case r of [] \<Rightarrow> False | f # _ \<Rightarrow> isdigit f)) \<or>
             map tolower (take 3 u) = ''inf'' \<or> map tolower (take 3 u) = ''nan'')"

definition stold :: "(string \<Rightarrow> real option) \<Rightarrow> string \<Rightarrow> error + real" where
  "stold strtold str =
     (if \<not> has_numeric_prefix str then Inl InvalidArgument
      else case strtold str of None \<Rightarrow> Inl OutOfRange | Some v \<Rightarrow> Inr v)"

text \<open>
  The lookup of the map-based conversion: \<open>map.find(id)\<close>, the stored number when the key
  is present and \<open>-1\<close> otherwise. It never throws.
\<close>

definition map_lookup :: "NameToDataMap \<Rightarrow> string \<Rightarrow> error + real" where
  "map_lookup map' id' = (case map' id' of Some second \<Rightarrow> Inr second | None \<Rightarrow> Inr (- 1))"

subsection \<open>Hit collection to 14 columns\<close>

text \<open>\<open>out[k].push_back(v)\<close>; every table below has its \<open>column_count\<close> columns when it is used.\<close>

definition push_back :: "nat \<Rightarrow> real \<Rightarrow> DataEntryList \<Rightarrow> DataEntryList" where
  "push_back k v out = out[k := out ! k @ [v]]"

text \<open>The first loop of every conversion: \<open>column_count\<close> empty columns.\<close>

definition empty_columns :: "nat \<Rightarrow> DataEntryList" where
  "empty_columns column_count = fold (\<lambda>i out. out @ [[]]) [0..<column_count] []"

text \<open>
  The body of the hit loop, the fourteen \<open>push_back\<close>s in the order of the source. The
  number \<open>c\<close> is the result of \<open>name_map(hit->GetChamberID())\<close>.
\<close>

definition append_hit :: "Hit \<Rightarrow> real \<Rightarrow> DataEntryList \<Rightarrow> DataEntryList" where
  "append_hit hit c out =
     fold (\<lambda>(k, v). push_back k v)
       [(0, deposit hit),
        (1, lv_t (position hit)),
        (2, c),
        (3, real_of_int (GetPDGEncoding hit)),
        (4, real_of_int (trackID hit)),
        (5, real_of_int (parentID hit)),
        (6, lv_x (position hit)),
        (7, lv_y (position hit)),
        (8, lv_z (position hit)),
        (9, lv_e (momentum hit)),
        (10, lv_px (momentum hit)),
        (11, lv_py (momentum hit)),
        (12, lv_pz (momentum hit)),
        (13, 1)]
       out"

text \<open>
  The hit loop \<open>for (i = 0; i < size; ++i)\<close>. When \<open>name_map\<close> throws, the exception leaves
  the conversion and the table built so far is lost.
\<close>

fun fill_hits :: "HitCollection \<Rightarrow> (string \<Rightarrow> error + real) \<Rightarrow> DataEntryList \<Rightarrow> error + DataEntryList" where
  "fill_hits [] name_map out = Inr out"
| "fill_hits (hit # rest) name_map out =
     (case name_map (chamberID hit) of
        Inl e \<Rightarrow> Inl e
      | Inr c \<Rightarrow> fill_hits rest name_map (append_hit hit c out))"

definition convert_to_analysis :: "HitCollection \<Rightarrow> (string \<Rightarrow> error + real) \<Rightarrow> error + DataEntryList" where
  "convert_to_analysis collection name_map = fill_hits collection name_map (empty_columns 14)"

text \<open>The two public conversions of a hit collection: by \<open>std::stold\<close> and by a map.\<close>

definition ConvertToAnalysis_hits :: "(string \<Rightarrow> real option) \<Rightarrow> HitCollection \<Rightarrow> error + DataEntryList" where
  "ConvertToAnalysis_hits strtold collection = convert_to_analysis collection (stold strtold)"

definition ConvertToAnalysis_map :: "HitCollection \<Rightarrow> NameToDataMap \<Rightarrow> error + DataEntryList" where
  "ConvertToAnalysis_map collection map' = convert_to_analysis collection (map_lookup map')"

subsection \<open>The cut conversion\<close>

text \<open>
  The test \<open>y > layer_bounds[k][0] && y < layer_bounds[k][1]\<close> on one interval: the second
  element is read only when the first comparison holds.
\<close>

definition inside :: "real \<Rightarrow> real list \<Rightarrow> error + bool" where
  "inside y bound =
     (case at_index bound 0 of
        Inl e \<Rightarrow> Inl e
      | Inr lo \<Rightarrow>
          if y > lo then (case at_index bound 1 of Inl e \<Rightarrow> Inl e | Inr hi \<Rightarrow> Inr (y < hi))
          else Inr False)"

text \<open>
  The loop over \<open>k\<close> for one hit, \<open>ks\<close> being the indices still to visit. \<open>tracker_layers\<close>
  is a vector of \<open>double\<close>, and the index \<open>k\<close> is pushed as a number (exact for every index
  below \<open>2 ^ 53\<close>, far beyond the size of a vector). Inside the loop \<open>k\<close> is below
  \<open>layer_bounds.size()\<close>, so \<open>layer_bounds[k]\<close> is in range.
\<close>

fun scan_layers :: "real \<Rightarrow> real list list \<Rightarrow> nat list \<Rightarrow> real list \<Rightarrow> error + real list" where
  "scan_layers y layer_bounds [] tracker_layers = Inr tracker_layers"
| "scan_layers y layer_bounds (k # ks) tracker_layers =
     (case inside y (layer_bounds ! k) of
        Inl e \<Rightarrow> Inl e
      | Inr b \<Rightarrow>
          scan_layers y layer_bounds ks (if b then tracker_layers @ [real k] else tracker_layers))"

definition candidate :: "Hit \<Rightarrow> bool" where
  "candidate hit \<longleftrightarrow>
     lv_py (momentum hit) > 0 \<and> deposit hit > 0.5 \<and> lv_y (position hit) > 7000"

fun collect_layers :: "HitCollection \<Rightarrow> real list list \<Rightarrow> real list \<Rightarrow> error + real list" where
  "collect_layers [] layer_bounds tracker_layers = Inr tracker_layers"
| "collect_layers (hit # rest) layer_bounds tracker_layers =
     (if candidate hit then
        (case scan_layers (lv_y (position hit)) layer_bounds [0..<length layer_bounds] tracker_layers of
           Inl e \<Rightarrow> Inl e
         | Inr tracker_layers' \<Rightarrow> collect_layers rest layer_bounds tracker_layers')
      else collect_layers rest layer_bounds tracker_layers)"

text \<open>
  The cut conversion has an export loop of its own (lines 236 to 252 of the source), written
  out a second time after the loop of the plain conversion: its fourteen \<open>push_back\<close>s and
  the loop over the whole collection.
\<close>

definition append_hit_cut :: "Hit \<Rightarrow> real \<Rightarrow> DataEntryList \<Rightarrow> DataEntryList" where
  "append_hit_cut hit c out =
     fold (\<lambda>(k, v). push_back k v)
       [(0, deposit hit),
        (1, lv_t (position hit)),
        (2, c),
        (3, real_of_int (GetPDGEncoding hit)),
        (4, real_of_int (trackID hit)),
        (5, real_of_int (parentID hit)),
        (6, lv_x (position hit)),
        (7, lv_y (position hit)),
        (8, lv_z (position hit)),
        (9, lv_e (momentum hit)),
        (10, lv_px (momentum hit)),
        (11, lv_py (momentum hit)),
        (12, lv_pz (momentum hit)),
        (13, 1)]
       out"

fun fill_hits_cut :: "HitCollection \<Rightarrow> (string \<Rightarrow> error + real) \<Rightarrow> DataEntryList \<Rightarrow> error + DataEntryList" where
  "fill_hits_cut [] name_map out = Inr out"
| "fill_hits_cut (hit # rest) name_map out =
     (case name_map (chamberID hit) of
        Inl e \<Rightarrow> Inl e
      | Inr c \<Rightarrow> fill_hits_cut rest name_map (append_hit_cut hit c out))"

text \<open>
  \<open>std::sort\<close> followed by \<open>std::unique\<close> and \<open>erase\<close>: the sorted list without adjacent
  repetitions. The export loop runs only when at least three layers remain.
\<close>

definition convert_to_cut_analysis ::
    "HitCollection \<Rightarrow> real list list \<Rightarrow> (string \<Rightarrow> error + real) \<Rightarrow> error + DataEntryList" where
  "convert_to_cut_analysis collection layer_bounds name_map =
     (case collect_layers collection layer_bounds [] of
        Inl e \<Rightarrow> Inl e
      | Inr tracker_layers \<Rightarrow>
          if length (remdups_adj (sort tracker_layers)) \<ge> 3
          then fill_hits_cut collection name_map (empty_columns 14)
          else Inr (empty_columns 14))"

definition ConvertToAnalysis_cut ::
    "(string \<Rightarrow> real option) \<Rightarrow> HitCollection \<Rightarrow> real list list \<Rightarrow> bool \<Rightarrow> error + DataEntryList" where
  "ConvertToAnalysis_cut strtold collection layer_bounds savecut =
     (if savecut then convert_to_cut_analysis collection layer_bounds (stold strtold)
      else convert_to_analysis collection (stold strtold))"

subsection \<open>Generator particles to 20 columns\<close>

text \<open>
  Modelled from the spec: the \<open>GenParticle\<close> record of physics/Particle.hh, a header that
  is not among the sources, with the fields the conversion reads: index, link to the
  transported track (negative when the particle was not transported), PDG code, status,
  vertex and momentum 4-vectors, two mother and two daughter indices, and the mass (the
  member \<open>m\<close>, named \<open>gp_m\<close> here). The 4-vector type and its derived quantities \<open>pT()\<close>,
  \<open>eta()\<close> and \<open>phi()\<close> come from the generator library; the three functions are
  parameters of the conversion.
\<close>

record Vec4 =
  v_e :: real
  v_px :: real
  v_py :: real
  v_pz :: real

record GenParticle =
  index :: int
  G4index :: int
  pdgid :: int
  status :: int
  vertex :: Vec4
  mom :: Vec4
  moid1 :: int
  moid2 :: int
  dau1 :: int
  dau2 :: int
  gp_m :: real

type_synonym GenParticleVector = "GenParticle list"

text \<open>The selection loop: \<open>if (saveall || particles[index].G4index >= 0) pvec.push_back(...)\<close>.\<close>

definition select_particles :: "GenParticleVector \<Rightarrow> bool \<Rightarrow> GenParticleVector" where
  "select_particles particles saveall =
     fold (\<lambda>p pvec. if saveall \<or> G4index p \<ge> 0 then pvec @ [p] else pvec) particles []"

definition append_particle ::
    "(Vec4 \<Rightarrow> real) \<Rightarrow> (Vec4 \<Rightarrow> real) \<Rightarrow> (Vec4 \<Rightarrow> real) \<Rightarrow> GenParticle \<Rightarrow> DataEntryList \<Rightarrow> DataEntryList" where
  "append_particle pT eta phi p out =
     fold (\<lambda>(k, v). push_back k v)
       [(0, real_of_int (index p)),
        (1, real_of_int (G4index p)),
        (2, real_of_int (pdgid p)),
        (3, real_of_int (status p)),
        (4, v_e (vertex p)),
        (5, v_px (vertex p)),
        (6, v_py (vertex p)),
        (7, v_pz (vertex p)),
        (8, v_e (mom p)),
        (9, v_px (mom p)),
        (10, v_py (mom p)),
        (11, v_pz (mom p)),
        (12, real_of_int (moid1 p)),
        (13, real_of_int (moid2 p)),
        (14, real_of_int (dau1 p)),
        (15, real_of_int (dau2 p)),
        (16, gp_m p),
        (17, pT (mom p)),
        (18, eta (mom p)),
        (19, phi (mom p))]
       out"

definition ConvertToAnalysis_particles ::
    "(Vec4 \<Rightarrow> real) \<Rightarrow> (Vec4 \<Rightarrow> real) \<Rightarrow> (Vec4 \<Rightarrow> real) \<Rightarrow> GenParticleVector \<Rightarrow> bool \<Rightarrow> DataEntryList" where
  "ConvertToAnalysis_particles pT eta phi particles saveall =
     (let pvec = select_particles particles saveall
      in fold (append_particle pT eta phi) pvec (empty_columns 20))"

subsection \<open>The extra block to 16 columns\<close>

text \<open>
  Both loops read \<open>extra[i]\<close> for \<open>i\<close> from 0 to 15 without a check. The first loop only
  reserves capacity and adds an empty column; the second copies column \<open>i\<close> element by
  element.
\<close>

fun extra_columns :: "real list list \<Rightarrow> nat list \<Rightarrow> DataEntryList \<Rightarrow> error + DataEntryList" where
  "extra_columns extra [] out = Inr out"
| "extra_columns extra (i # is) out =
     (case at_index extra i of
        Inl e \<Rightarrow> Inl e
      | Inr extra_i \<Rightarrow> extra_columns extra is (out @ [[]]))"

fun extra_copy :: "real list list \<Rightarrow> nat list \<Rightarrow> DataEntryList \<Rightarrow> error + DataEntryList" where
  "extra_copy extra [] out = Inr out"
| "extra_copy extra (i # is) out =
     (case at_index extra i of
        Inl e \<Rightarrow> Inl e
      | Inr extra_i \<Rightarrow> extra_copy extra is (fold (\<lambda>v. push_back i v) extra_i out))"

definition ConvertToAnalysis_extra :: "real list list \<Rightarrow> error + DataEntryList" where
  "ConvertToAnalysis_extra extra =
     (case extra_columns extra [0..<16] [] of
        Inl e \<Rightarrow> Inl e
      | Inr out \<Rightarrow> extra_copy extra [0..<16] out)"

definition EmptyExtra :: "real list list" where
  "EmptyExtra = [[], [], [], [], [], [], [], [], [], [], [], [], [], [], [], []]"

section \<open>Notions used to state the properties\<close>

text \<open>
  A table is a list of columns. \<open>row_at out i\<close> is its row \<open>i\<close>, read across the columns,
  and \<open>table_of_rows n rows\<close> is the table of \<open>n\<close> columns whose rows are \<open>rows\<close>.
\<close>

definition row_at :: "DataEntryList \<Rightarrow> nat \<Rightarrow> real list" where
  "row_at out i = map (\<lambda>column. column ! i) out"

definition table_of_rows :: "nat \<Rightarrow> real list list \<Rightarrow> DataEntryList" where
  "table_of_rows column_count rows = map (\<lambda>k. map (\<lambda>r. r ! k) rows) [0..<column_count]"

text \<open>
  The row of one hit as the specification lists it: deposit, time, chamber number, PDG
  code, track id, parent id, position x, y, z, momentum e, px, py, pz, and the constant 1.
\<close>

definition hit_row :: "(string \<Rightarrow> real) \<Rightarrow> Hit \<Rightarrow> real list" where
  "hit_row chamber_numeric hit =
     [deposit hit, lv_t (position hit), chamber_numeric (chamberID hit),
      real_of_int (PDGEncoding (particle hit)), real_of_int (trackID hit),
      real_of_int (parentID hit),
      lv_x (position hit), lv_y (position hit), lv_z (position hit),
      lv_e (momentum hit), lv_px (momentum hit), lv_py (momentum hit), lv_pz (momentum hit),
      1]"

text \<open>
  A hit for the examples: a muon on track 1 with deposit 1 and momentum-py 1, in the
  chamber and at the height given.
\<close>

definition test_hit :: "string \<Rightarrow> real \<Rightarrow> Hit" where
  "test_hit chamber y =
     \<lparr>particle = \<lparr>ParticleName = ''mu-'', PDGEncoding = 13\<rparr>,
      trackID = 1, parentID = 0, chamberID = chamber, deposit = 1,
      position = \<lparr>lv_x = 0, lv_y = y, lv_z = 0, lv_t = 2\<rparr>,
      momentum = \<lparr>lv_x = 0, lv_y = 1, lv_z = 0, lv_t = 3\<rparr>\<rparr>"

text \<open>
  The numbers \<open>std::strtold\<close> reads from the chamber ids of the examples.
\<close>

definition test_strtold :: "string \<Rightarrow> real option" where
  "test_strtold = [''1'' \<mapsto> 1, ''2'' \<mapsto> 2, ''3'' \<mapsto> 3, ''4'' \<mapsto> 4]"

text \<open>
  Layer bounds are a list of intervals \<open>[min, max]\<close>: every entry has its two elements.
\<close>

definition interval_bounds :: "real list list \<Rightarrow> bool" where
  "interval_bounds layer_bounds \<longleftrightarrow> (\<forall>bound\<in>set layer_bounds. 2 \<le> length bound)"

text \<open>
  The layers a collection reaches, in the words of the specification: the indices \<open>k\<close> of
  the intervals for which some hit with momentum-py above 0, deposit above 0.5 and
  position-y above 7000 has its position-y strictly between the two bounds of interval \<open>k\<close>.
\<close>

definition layers_reached :: "HitCollection \<Rightarrow> real list list \<Rightarrow> nat set" where
  "layers_reached collection layer_bounds =
     set (filter
       (\<lambda>k. \<exists>hit\<in>set collection.
          lv_py (momentum hit) > 0 \<and> deposit hit > 0.5 \<and> lv_y (position hit) > 7000 \<and>
          lv_y (position hit) > layer_bounds ! k ! 0 \<and>
          lv_y (position hit) < layer_bounds ! k ! 1)
       [0..<length layer_bounds])"

text \<open>
  The row of one generator particle as the specification lists it: index, link to the
  transported track, PDG code, status, vertex e, px, py, pz, momentum e, px, py, pz, the
  two mothers, the two daughters, the mass, and the transverse momentum, pseudorapidity
  and azimuth of the momentum 4-vector.
\<close>

definition particle_row ::
    "(Vec4 \<Rightarrow> real) \<Rightarrow> (Vec4 \<Rightarrow> real) \<Rightarrow> (Vec4 \<Rightarrow> real) \<Rightarrow> GenParticle \<Rightarrow> real list" where
  "particle_row pT eta phi p =
     [real_of_int (index p), real_of_int (G4index p), real_of_int (pdgid p),
      real_of_int (status p),
      v_e (vertex p), v_px (vertex p), v_py (vertex p), v_pz (vertex p),
      v_e (mom p), v_px (mom p), v_py (mom p), v_pz (mom p),
      real_of_int (moid1 p), real_of_int (moid2 p), real_of_int (dau1 p), real_of_int (dau2 p),
      gp_m p, pT (mom p), eta (mom p), phi (mom p)]"

text \<open>A generator particle for the examples, with the index and the track link given.\<close>

definition test_particle :: "int \<Rightarrow> int \<Rightarrow> GenParticle" where
  "test_particle i g =
     \<lparr>index = i, G4index = g, pdgid = 13, status = 1,
      vertex = \<lparr>v_e = 0, v_px = 1, v_py = 2, v_pz = 3\<rparr>,
      mom = \<lparr>v_e = 10, v_px = 3, v_py = 4, v_pz = 0\<rparr>,
      moid1 = 0, moid2 = 0, dau1 = 0, dau2 = 0, gp_m = 1\<rparr>"

section \<open>Properties of the settings builder\<close>

lemma fold_AddSetting_index:
  "n \<le> length names \<Longrightarrow> n \<le> length texts \<Longrightarrow>
   fold (\<lambda>i out. AddSetting out (f i (names ! i)) (texts ! i)) [0..<n] [] =
   map (\<lambda>i. \<lparr>setting_name = f i (names ! i), setting_text = texts ! i\<rparr>) [0..<n]"
  by (induction n) (simp_all add: AddSetting_def)

text \<open>
  C7. For two parallel sequences of names and texts, the builder returns the empty list
  (an ordinary value, no error) whenever the lengths differ or one of the sequences is
  empty; otherwise it returns one name/text pair per position, in sequence order.
\<close>

theorem Settings_parallel:
  "(length names \<noteq> length texts \<or> names = [] \<or> texts = [] \<longrightarrow> Settings names texts = []) \<and>
   (length names = length texts \<and> names \<noteq> [] \<longrightarrow>
      Settings names texts =
        map (\<lambda>(n, t). \<lparr>setting_name = n, setting_text = t\<rparr>) (zip names texts))"
proof (intro conjI impI)
  assume "length names \<noteq> length texts \<or> names = [] \<or> texts = []"
  then show "Settings names texts = []"
    by (auto simp: Settings_def)
next
  assume a: "length names = length texts \<and> names \<noteq> []"
  then have "Settings names texts =
      fold (\<lambda>i out. AddSetting out (names ! i) (texts ! i)) [0..<length names] []"
    by (simp add: Settings_def)
  also have "\<dots> = map (\<lambda>i. \<lparr>setting_name = names ! i, setting_text = texts ! i\<rparr>)
      [0..<length names]"
    using a fold_AddSetting_index [of "length names" names texts "\<lambda>i n. n"] by simp
  also have "\<dots> = map (\<lambda>(n, t). \<lparr>setting_name = n, setting_text = t\<rparr>) (zip names texts)"
    using a by (intro nth_equalityI) simp_all
  finally show "Settings names texts =
      map (\<lambda>(n, t). \<lparr>setting_name = n, setting_text = t\<rparr>) (zip names texts)" .
qed

theorem Settings_parallel_witness:
  "Settings [''A''] [] = [] \<and>
   Settings [''A'', ''B''] [''1'', ''2''] =
     [\<lparr>setting_name = ''A'', setting_text = ''1''\<rparr>,
      \<lparr>setting_name = ''B'', setting_text = ''2''\<rparr>]"
  using Settings_parallel [of "[''A'']" "[]"]
    Settings_parallel [of "[''A'', ''B'']" "[''1'', ''2'']"]
  by simp

text \<open>
  C8 (as amended). For every base name, every sequence of texts and every starting index,
  \<open>IndexedSettings\<close> returns exactly one entry per text, in sequence order, whose text is
  the text at that position and whose name is the base name followed by the decimal
  rendering of (starting index + position) reduced modulo \<open>2 ^ 64\<close>; this is the plain
  sum whenever starting index + number of texts does not exceed \<open>2 ^ 64\<close>.
\<close>

theorem IndexedSettings_names:
  "length (IndexedSettings name texts starting_index) = length texts \<and>
   (\<forall>i<length texts.
      IndexedSettings name texts starting_index ! i =
        \<lparr>setting_name = name @ to_string ((unat starting_index + i) mod 2 ^ 64),
         setting_text = texts ! i\<rparr>) \<and>
   (unat starting_index + length texts \<le> 2 ^ 64 \<longrightarrow>
      (\<forall>i<length texts.
         IndexedSettings name texts starting_index ! i =
           \<lparr>setting_name = name @ to_string (unat starting_index + i),
            setting_text = texts ! i\<rparr>))"
proof -
  have wrap: "unat (starting_index + of_nat i) = (unat starting_index + i) mod 2 ^ 64" for i
    by (simp add: unat_word_ariths unat_of_nat mod_simps)
  have loop: "IndexedSettings name texts starting_index =
      map (\<lambda>i. \<lparr>setting_name = name @ to_string ((unat starting_index + i) mod 2 ^ 64),
                  setting_text = texts ! i\<rparr>) [0..<length texts]"
    using fold_AddSetting_index [of "length texts" texts texts
        "\<lambda>i t. name @ to_string (unat (starting_index + of_nat i))"]
    by (simp add: IndexedSettings_def wrap)
  have plain: "(unat starting_index + i) mod 2 ^ 64 = unat starting_index + i"
    if "unat starting_index + length texts \<le> 2 ^ 64" "i < length texts" for i
    using that by simp
  show ?thesis
    using plain by (simp add: loop)
qed

theorem IndexedSettings_names_witness:
  "unat (3 :: size_t) + length [''a'', ''b''] \<le> 2 ^ 64 \<and>
   IndexedSettings ''X'' [''a'', ''b''] 3 =
     [\<lparr>setting_name = ''X3'', setting_text = ''a''\<rparr>,
      \<lparr>setting_name = ''X4'', setting_text = ''b''\<rparr>]"
proof -
  have small: "unat (3 :: size_t) + length [''a'', ''b''] \<le> 2 ^ 64"
    by simp
  with IndexedSettings_names [of "''X''" "[''a'', ''b'']" 3]
  have len: "length (IndexedSettings ''X'' [''a'', ''b''] 3) = 2"
    and nth: "\<forall>i<2. IndexedSettings ''X'' [''a'', ''b''] 3 ! i =
           \<lparr>setting_name = ''X'' @ to_string (unat (3 :: size_t) + i),
            setting_text = [''a'', ''b''] ! i\<rparr>"
    by simp_all
  from nth have "IndexedSettings ''X'' [''a'', ''b''] 3 ! 0 =
      \<lparr>setting_name = ''X3'', setting_text = ''a''\<rparr>"
    and "IndexedSettings ''X'' [''a'', ''b''] 3 ! 1 =
      \<lparr>setting_name = ''X4'', setting_text = ''b''\<rparr>"
    by (simp_all add: to_string.simps)
  with len have "IndexedSettings ''X'' [''a'', ''b''] 3 =
     [\<lparr>setting_name = ''X3'', setting_text = ''a''\<rparr>,
      \<lparr>setting_name = ''X4'', setting_text = ''b''\<rparr>]"
    by (intro nth_equalityI) (auto dest!: less_2_cases)
  with small show ?thesis by blast
qed

text \<open>
  The claim C8 as it is written fails at the largest starting index: the second name is
  \<open>X0\<close>, not the base name followed by the decimal rendering of \<open>2 ^ 64\<close>.
\<close>

theorem IndexedSettings_wraps:
  "map setting_name (IndexedSettings ''X'' [''a'', ''b''] 18446744073709551615) =
     [''X18446744073709551615'', ''X0''] \<and>
   map setting_name (IndexedSettings ''X'' [''a'', ''b''] 18446744073709551615) \<noteq>
     map (\<lambda>i. ''X'' @ to_string (unat (18446744073709551615 :: size_t) + i)) [0..<2]"
  by (simp add: IndexedSettings_def AddSetting_def to_string.simps upt_rec)

section \<open>Properties of the default schema\<close>

text \<open>
  C9. The default schema is a fixed list of exactly 52 keys, the list of type tags has
  the same length, and the blocks come in this order: the hit count and the 14 keys of
  the hit block, the particle count and the 20 keys of the generator-particle block, the
  11 keys of the cosmic-ray block, and the 5 extension slots.
\<close>

theorem DefaultDataKeyList_layout:
  "length DefaultDataKeyList = 52 \<and>
   length DefaultDataKeyTypeList = length DefaultDataKeyList \<and>
   DefaultDataKeyList ! 0 = ''NumHits'' \<and>
   map (take 4) (take 14 (drop 1 DefaultDataKeyList)) =
     [''Hit_'', ''Hit_'', ''Hit_'', ''Hit_'', ''Hit_'', ''Hit_'', ''Hit_'',
      ''Hit_'', ''Hit_'', ''Hit_'', ''Hit_'', ''Hit_'', ''Hit_'', ''Hit_''] \<and>
   DefaultDataKeyList ! 15 = ''NumGenParticles'' \<and>
   list_all (\<lambda>key. take 12 key = ''GenParticle_'') (take 20 (drop 16 DefaultDataKeyList)) \<and>
   list_all (\<lambda>key. take 7 key = ''COSMIC_'') (take 11 (drop 36 DefaultDataKeyList)) \<and>
   map (take 6) (drop 47 DefaultDataKeyList) =
     [''EXTRA_'', ''EXTRA_'', ''EXTRA_'', ''EXTRA_'', ''EXTRA_''] \<and>
   distinct DefaultDataKeyList \<and>
   DefaultDataKeyTypeList ! 0 = Single \<and> DefaultDataKeyTypeList ! 15 = Single \<and>
   list_all (\<lambda>tag. tag = Vector) (take 14 (drop 1 DefaultDataKeyTypeList)) \<and>
   list_all (\<lambda>tag. tag = Vector) (drop 16 DefaultDataKeyTypeList)"
  by (simp add: DefaultDataKeyList_def DefaultDataKeyTypeList_def)

section \<open>Properties of the hit-collection conversion\<close>

lemma upt_14: "[0..<14] = [0, 1, 2, 3, 4, 5, 6, 7, 8, 9, 10, 11, 12, 13]"
  by (simp add: upt_rec)

lemma empty_columns_replicate: "empty_columns n = replicate n []"
  unfolding empty_columns_def
  by (induction n) (simp_all add: replicate_append_same)

lemma empty_columns_table: "empty_columns n = table_of_rows n []"
  by (simp add: empty_columns_replicate table_of_rows_def map_replicate_const)

lemma table_of_rows_props:
  "\<forall>r\<in>set rows. length r = n \<Longrightarrow>
   length (table_of_rows n rows) = n \<and>
   (\<forall>c<n. length (table_of_rows n rows ! c) = length rows) \<and>
   (\<forall>i<length rows. row_at (table_of_rows n rows) i = rows ! i)"
  by (auto simp: table_of_rows_def row_at_def o_def intro!: nth_equalityI)

lemma length_hit_row: "length (hit_row f h) = 14"
  by (simp add: hit_row_def)

lemma append_hit_table:
  "append_hit hit (f (chamberID hit)) (table_of_rows 14 rows) =
   table_of_rows 14 (rows @ [hit_row f hit])"
  by (simp add: append_hit_def table_of_rows_def upt_14 push_back_def hit_row_def
      GetPDGEncoding_def)

lemma fill_hits_ok:
  "\<forall>h\<in>set hits. name_map (chamberID h) = Inr (f (chamberID h)) \<Longrightarrow>
   fill_hits hits name_map (table_of_rows 14 rows) =
   Inr (table_of_rows 14 (rows @ map (hit_row f) hits))"
proof (induction hits arbitrary: rows)
  case Nil
  then show ?case by simp
next
  case (Cons h hits)
  then show ?case
    using append_hit_table [of h f rows] by simp
qed

lemma fill_hits_fail:
  "\<exists>h\<in>set hits. isl (name_map (chamberID h)) \<Longrightarrow>
   \<exists>e. fill_hits hits name_map out = Inl e \<and> (\<exists>h\<in>set hits. name_map (chamberID h) = Inl e)"
proof (induction hits arbitrary: out)
  case Nil
  then show ?case by simp
next
  case (Cons h hits)
  show ?case
  proof (cases "name_map (chamberID h)")
    case (Inl e)
    then show ?thesis by auto
  next
    case (Inr c)
    with Cons.prems have "\<exists>h\<in>set hits. isl (name_map (chamberID h))" by auto
    from Cons.IH [OF this, of "append_hit h c out"] Inr show ?thesis by auto
  qed
qed

lemma convert_to_analysis_ok:
  "\<forall>h\<in>set hits. name_map (chamberID h) = Inr (f (chamberID h)) \<Longrightarrow>
   convert_to_analysis hits name_map = Inr (table_of_rows 14 (map (hit_row f) hits))"
  using fill_hits_ok [of hits name_map f "[]"]
  by (simp add: convert_to_analysis_def empty_columns_table)

lemma hit_table_props:
  "length (table_of_rows 14 (map (hit_row f) hits)) = 14 \<and>
   (\<forall>c<14. length (table_of_rows 14 (map (hit_row f) hits) ! c) = length hits) \<and>
   (\<forall>i<length hits. row_at (table_of_rows 14 (map (hit_row f) hits)) i = hit_row f (hits ! i))"
  using table_of_rows_props [of "map (hit_row f) hits" 14]
  by (simp add: length_hit_row)

text \<open>
  C3 (as amended). Whenever the caller-supplied mapping yields a number for the chamber id
  of every hit, the conversion returns exactly 14 columns, each as long as the hit count,
  and row \<open>i\<close> holds, in column order: deposit, position time, the mapping applied to the
  chamber id, PDG code, track id, parent id, position x, y, z, momentum e, px, py, pz,
  and 1. When the mapping fails on some hit, the conversion returns no table: it fails
  with the error of such a hit.
\<close>

theorem convert_to_analysis_rows:
  "((\<forall>h\<in>set collection. name_map (chamberID h) = Inr (f (chamberID h))) \<longrightarrow>
      (\<exists>out. convert_to_analysis collection name_map = Inr out \<and>
         length out = 14 \<and>
         (\<forall>c<14. length (out ! c) = length collection) \<and>
         (\<forall>i<length collection. row_at out i = hit_row f (collection ! i)))) \<and>
   ((\<exists>h\<in>set collection. isl (name_map (chamberID h))) \<longrightarrow>
      (\<exists>e. convert_to_analysis collection name_map = Inl e \<and>
         (\<exists>h\<in>set collection. name_map (chamberID h) = Inl e)))"
proof (intro conjI impI)
  assume "\<forall>h\<in>set collection. name_map (chamberID h) = Inr (f (chamberID h))"
  then have "convert_to_analysis collection name_map =
      Inr (table_of_rows 14 (map (hit_row f) collection))"
    by (rule convert_to_analysis_ok)
  then show "\<exists>out. convert_to_analysis collection name_map = Inr out \<and>
         length out = 14 \<and>
         (\<forall>c<14. length (out ! c) = length collection) \<and>
         (\<forall>i<length collection. row_at out i = hit_row f (collection ! i))"
    using hit_table_props [of f collection] by blast
next
  assume "\<exists>h\<in>set collection. isl (name_map (chamberID h))"
  then show "\<exists>e. convert_to_analysis collection name_map = Inl e \<and>
         (\<exists>h\<in>set collection. name_map (chamberID h) = Inl e)"
    unfolding convert_to_analysis_def by (rule fill_hits_fail)
qed

theorem convert_to_analysis_rows_witness:
  "stold (\<lambda>s. Some 7) ''7'' = Inr 7 \<and>
   (\<exists>out. ConvertToAnalysis_hits (\<lambda>s. Some 7) [test_hit ''7'' 7005] = Inr out \<and>
      length out = 14 \<and> row_at out 0 = [1, 2, 7, 13, 1, 0, 0, 7005, 0, 3, 0, 1, 0, 1]) \<and>
   ConvertToAnalysis_hits (\<lambda>s. Some 7) [test_hit ''7'' 7005, test_hit ''Layer2'' 7015] =
     Inl InvalidArgument"
proof -
  have ok: "stold (\<lambda>s. Some 7) ''7'' = Inr 7"
    by (simp add: stold_def has_numeric_prefix_def isspace_def isdigit_def)
  have bad: "stold (\<lambda>s. Some 7) ''Layer2'' = Inl InvalidArgument"
    by (simp add: stold_def has_numeric_prefix_def isspace_def isdigit_def tolower_def)
  have 1: "\<exists>out. convert_to_analysis [test_hit ''7'' 7005] (stold (\<lambda>s. Some 7)) = Inr out \<and>
      length out = 14 \<and> row_at out 0 = hit_row (\<lambda>s. 7) (test_hit ''7'' 7005)"
    using convert_to_analysis_rows
      [of "[test_hit ''7'' 7005]" "stold (\<lambda>s. Some 7)" "\<lambda>s. 7"] ok
    by (auto simp: test_hit_def)
  have 2: "convert_to_analysis [test_hit ''7'' 7005, test_hit ''Layer2'' 7015]
      (stold (\<lambda>s. Some 7)) = Inl InvalidArgument"
    using convert_to_analysis_rows
      [of "[test_hit ''7'' 7005, test_hit ''Layer2'' 7015]" "stold (\<lambda>s. Some 7)" "\<lambda>s. 7"]
      ok bad
    by (auto simp: test_hit_def)
  show ?thesis
    using ok 1 2 by (simp add: ConvertToAnalysis_hits_def hit_row_def test_hit_def)
qed

text \<open>
  The claim C3 as it is written fails: the conversion by \<open>std::stold\<close> of a collection with
  one hit in the chamber \<open>Layer2\<close> returns no table of 14 columns, it throws
  \<open>std::invalid_argument\<close>.
\<close>

theorem convert_to_analysis_unparsed_chamber:
  "\<forall>strtold. ConvertToAnalysis_hits strtold [test_hit ''Layer2'' 7005] = Inl InvalidArgument \<and>
     \<not> (\<exists>out. ConvertToAnalysis_hits strtold [test_hit ''Layer2'' 7005] = Inr out \<and>
           length out = 14)"
  by (simp add: ConvertToAnalysis_hits_def convert_to_analysis_def stold_def
      has_numeric_prefix_def isspace_def isdigit_def tolower_def test_hit_def)

text \<open>
  C6. In the map-based conversion the chamber column of every row is the number the map
  gives for the hit's chamber id when the id is a key of the map, and \<open>-1\<close> when it is not;
  the conversion always returns a table, an absent key is no error. With the map of
  \<open>Layer1\<close> to 1 and a hit in the chamber \<open>Layer2\<close>, the chamber column of the row is \<open>-1\<close>.
\<close>

theorem ConvertToAnalysis_map_chamber:
  "\<exists>out. ConvertToAnalysis_map collection map' = Inr out \<and>
     length out = 14 \<and>
     length (out ! 2) = length collection \<and>
     (\<forall>i<length collection.
        out ! 2 ! i =
          (case map' (chamberID (collection ! i)) of Some v \<Rightarrow> v | None \<Rightarrow> - 1))"
proof -
  let ?f = "\<lambda>s. case map' s of Some v \<Rightarrow> v | None \<Rightarrow> - 1"
  let ?out = "table_of_rows 14 (map (hit_row ?f) collection)"
  have "\<forall>h\<in>set collection. map_lookup map' (chamberID h) = Inr (?f (chamberID h))"
    by (simp add: map_lookup_def split: option.split)
  then have "ConvertToAnalysis_map collection map' = Inr ?out"
    unfolding ConvertToAnalysis_map_def by (rule convert_to_analysis_ok)
  moreover have "length ?out = 14"
    by (simp add: table_of_rows_def)
  moreover have "?out ! 2 = map (\<lambda>h. ?f (chamberID h)) collection"
    by (simp add: table_of_rows_def hit_row_def o_def)
  ultimately show ?thesis by simp
qed

theorem ConvertToAnalysis_map_chamber_witness:
  "\<exists>out. ConvertToAnalysis_map [test_hit ''Layer2'' 7005] [''Layer1'' \<mapsto> 1] = Inr out \<and>
     out ! 2 = [- 1]"
proof -
  obtain out where
    "ConvertToAnalysis_map [test_hit ''Layer2'' 7005] [''Layer1'' \<mapsto> 1] = Inr out"
    "length (out ! 2) = 1" "out ! 2 ! 0 = - 1"
    using ConvertToAnalysis_map_chamber [of "[test_hit ''Layer2'' 7005]" "[''Layer1'' \<mapsto> 1]"]
    by (auto simp: test_hit_def)
  moreover from this have "out ! 2 = [- 1]"
    by (cases "out ! 2") simp_all
  ultimately show ?thesis by blast
qed

section \<open>Properties of the cut conversion\<close>

lemma distinct_unique_sorted:
  fixes xs :: "'a::linorder list"
  shows "sorted xs \<Longrightarrow> distinct (remdups_adj xs)"
  by (induction xs rule: remdups_adj.induct) auto

lemma length_unique_sort:
  fixes xs :: "'a::linorder list"
  shows "length (remdups_adj (sort xs)) = card (set xs)"
proof -
  have "distinct (remdups_adj (sort xs))"
    by (rule distinct_unique_sorted) simp
  then have "card (set (remdups_adj (sort xs))) = length (remdups_adj (sort xs))"
    by (rule distinct_card)
  then show ?thesis by simp
qed

lemma inside_ok: "2 \<le> length bound \<Longrightarrow> inside y bound = Inr (bound ! 0 < y \<and> y < bound ! 1)"
  by (auto simp: inside_def at_index_def)

lemma scan_layers_ok:
  "interval_bounds layer_bounds \<Longrightarrow> \<forall>k\<in>set ks. k < length layer_bounds \<Longrightarrow>
   scan_layers y layer_bounds ks tracker_layers =
   Inr (tracker_layers @
        map real (filter (\<lambda>k. layer_bounds ! k ! 0 < y \<and> y < layer_bounds ! k ! 1) ks))"
proof (induction ks arbitrary: tracker_layers)
  case Nil
  then show ?case by simp
next
  case (Cons k ks)
  then have "2 \<le> length (layer_bounds ! k)"
    by (simp add: interval_bounds_def)
  then have "inside y (layer_bounds ! k) =
      Inr (layer_bounds ! k ! 0 < y \<and> y < layer_bounds ! k ! 1)"
    by (rule inside_ok)
  with Cons show ?case by simp
qed

lemma collect_layers_ok:
  "interval_bounds layer_bounds \<Longrightarrow>
   \<exists>tracker_layers'. collect_layers hits layer_bounds tracker_layers = Inr tracker_layers' \<and>
      set tracker_layers' = set tracker_layers \<union> real ` layers_reached hits layer_bounds"
proof (induction hits arbitrary: tracker_layers)
  case Nil
  then show ?case by (simp add: layers_reached_def)
next
  case (Cons h hits)
  let ?y = "lv_y (position h)"
  let ?new = "map real (filter (\<lambda>k. layer_bounds ! k ! 0 < ?y \<and> ?y < layer_bounds ! k ! 1)
      [0..<length layer_bounds])"
  have split: "layers_reached (h # hits) layer_bounds =
      (if candidate h
       then {k. k < length layer_bounds \<and> layer_bounds ! k ! 0 < ?y \<and> ?y < layer_bounds ! k ! 1}
       else {}) \<union> layers_reached hits layer_bounds"
    by (auto simp: layers_reached_def candidate_def)
  show ?case
  proof (cases "candidate h")
    case True
    have scan: "scan_layers ?y layer_bounds [0..<length layer_bounds] tracker_layers =
        Inr (tracker_layers @ ?new)"
      using Cons.prems by (intro scan_layers_ok) simp_all
    obtain tl' where tl': "collect_layers hits layer_bounds (tracker_layers @ ?new) = Inr tl'"
        "set tl' = set (tracker_layers @ ?new) \<union> real ` layers_reached hits layer_bounds"
      using Cons.IH [OF Cons.prems] by blast
    have "set ?new = real ` {k. k < length layer_bounds \<and>
        layer_bounds ! k ! 0 < ?y \<and> ?y < layer_bounds ! k ! 1}"
      by auto
    with tl' True scan split show ?thesis
      by (auto simp: image_Un)
  next
    case False
    with Cons.IH [OF Cons.prems, of tracker_layers] split show ?thesis
      by simp
  qed
qed

lemma finite_layers_reached: "finite (layers_reached hits lb)"
  by (simp add: layers_reached_def)

text \<open>
  The export loop of the cut conversion and the loop of the plain conversion are two
  pieces of code; they compute the same thing.
\<close>

lemma append_hit_cut_eq: "append_hit_cut hit c out = append_hit hit c out"
  by (simp add: append_hit_cut_def append_hit_def)

lemma fill_hits_cut_eq: "fill_hits_cut hits name_map out = fill_hits hits name_map out"
  by (induction hits arbitrary: out) (simp_all add: append_hit_cut_eq split: sum.split)

lemma cut_decision:
  assumes "interval_bounds layer_bounds"
  shows "convert_to_cut_analysis hits layer_bounds name_map =
     (if 3 \<le> card (layers_reached hits layer_bounds)
      then convert_to_analysis hits name_map else Inr (empty_columns 14))"
proof -
  obtain tl where tl: "collect_layers hits layer_bounds [] = Inr tl"
      "set tl = real ` layers_reached hits layer_bounds"
    using collect_layers_ok [OF assms, of hits "[]"] by auto
  have "length (remdups_adj (sort tl)) = card (real ` layers_reached hits layer_bounds)"
    using tl(2) by (simp add: length_unique_sort)
  also have "\<dots> = card (layers_reached hits layer_bounds)"
    by (intro card_image) (simp add: inj_on_def)
  finally show ?thesis
    using tl(1)
    by (simp add: convert_to_cut_analysis_def convert_to_analysis_def fill_hits_cut_eq)
qed

lemma stold_no_digits:
  "stold strtold ''Layer1'' = Inl InvalidArgument"
  "stold strtold ''Layer2'' = Inl InvalidArgument"
  "stold strtold ''Layer3'' = Inl InvalidArgument"
  by (simp_all add: stold_def has_numeric_prefix_def isspace_def isdigit_def tolower_def)

lemma stold_digit:
  "stold test_strtold ''1'' = Inr 1"
  "stold test_strtold ''2'' = Inr 2"
  "stold test_strtold ''3'' = Inr 3"
  "stold test_strtold ''4'' = Inr 4"
  by (simp_all add: stold_def has_numeric_prefix_def isspace_def isdigit_def test_strtold_def)

lemma interval_bounds_raised: "interval_bounds [[7000, 7010], [7010, 7020], [7020, 7030]]"
  by (simp add: interval_bounds_def)

lemma layers_reached_three:
  "card (layers_reached [test_hit c1 7005, test_hit c2 7015, test_hit c3 7025]
     [[7000, 7010], [7010, 7020], [7020, 7030]]) = 3"
  by (simp add: layers_reached_def test_hit_def upt_rec)

lemma layers_reached_two:
  "card (layers_reached [test_hit c1 7005, test_hit c2 7015]
     [[7000, 7010], [7010, 7020], [7020, 7030]]) = 2"
  by (simp add: layers_reached_def test_hit_def upt_rec)

text \<open>
  C1 (as amended). For every hit collection and every list of \<open>[min, max]\<close> intervals, the
  cut conversion collects exactly the indices of the layers the collection reaches, and
  counts them without repetition. With at least 3 of them, and a chamber mapping that
  yields a number for every hit, the output has one row per hit of the whole collection,
  in collection order, in the 14-column layout; if the mapping fails on some hit, the
  conversion fails with the error of such a hit. With fewer than 3, the output is the
  table of 14 empty columns.
\<close>

theorem convert_to_cut_analysis_layers:
  assumes "interval_bounds layer_bounds"
  shows
    "(\<exists>tracker_layers.
        collect_layers collection layer_bounds [] = Inr tracker_layers \<and>
        set tracker_layers = real ` layers_reached collection layer_bounds \<and>
        length (remdups_adj (sort tracker_layers)) =
          card (layers_reached collection layer_bounds)) \<and>
     (3 \<le> card (layers_reached collection layer_bounds) \<and>
      (\<forall>h\<in>set collection. name_map (chamberID h) = Inr (f (chamberID h))) \<longrightarrow>
        (\<exists>out. convert_to_cut_analysis collection layer_bounds name_map = Inr out \<and>
           length out = 14 \<and>
           (\<forall>c<14. length (out ! c) = length collection) \<and>
           (\<forall>i<length collection. row_at out i = hit_row f (collection ! i)))) \<and>
     (3 \<le> card (layers_reached collection layer_bounds) \<and>
      (\<exists>h\<in>set collection. isl (name_map (chamberID h))) \<longrightarrow>
        (\<exists>e. convert_to_cut_analysis collection layer_bounds name_map = Inl e \<and>
           (\<exists>h\<in>set collection. name_map (chamberID h) = Inl e))) \<and>
     (card (layers_reached collection layer_bounds) < 3 \<longrightarrow>
        convert_to_cut_analysis collection layer_bounds name_map = Inr (replicate 14 []))"
proof (intro conjI impI)
  obtain tl where tl: "collect_layers collection layer_bounds [] = Inr tl"
      "set tl = real ` layers_reached collection layer_bounds"
    using collect_layers_ok [OF assms, of collection "[]"] by auto
  have "length (remdups_adj (sort tl)) = card (real ` layers_reached collection layer_bounds)"
    using tl(2) by (simp add: length_unique_sort)
  also have "\<dots> = card (layers_reached collection layer_bounds)"
    by (intro card_image) (simp add: inj_on_def)
  finally show "\<exists>tracker_layers.
        collect_layers collection layer_bounds [] = Inr tracker_layers \<and>
        set tracker_layers = real ` layers_reached collection layer_bounds \<and>
        length (remdups_adj (sort tracker_layers)) =
          card (layers_reached collection layer_bounds)"
    using tl by blast
next
  assume a: "3 \<le> card (layers_reached collection layer_bounds) \<and>
      (\<forall>h\<in>set collection. name_map (chamberID h) = Inr (f (chamberID h)))"
  then have "convert_to_cut_analysis collection layer_bounds name_map =
      Inr (table_of_rows 14 (map (hit_row f) collection))"
    using cut_decision [OF assms, of collection name_map]
      convert_to_analysis_ok [of collection name_map f] by simp
  then show "\<exists>out. convert_to_cut_analysis collection layer_bounds name_map = Inr out \<and>
           length out = 14 \<and>
           (\<forall>c<14. length (out ! c) = length collection) \<and>
           (\<forall>i<length collection. row_at out i = hit_row f (collection ! i))"
    using hit_table_props [of f collection] by blast
next
  assume a: "3 \<le> card (layers_reached collection layer_bounds) \<and>
      (\<exists>h\<in>set collection. isl (name_map (chamberID h)))"
  then have "convert_to_cut_analysis collection layer_bounds name_map =
      fill_hits collection name_map (empty_columns 14)"
    using cut_decision [OF assms, of collection name_map]
    by (simp add: convert_to_analysis_def)
  then show "\<exists>e. convert_to_cut_analysis collection layer_bounds name_map = Inl e \<and>
           (\<exists>h\<in>set collection. name_map (chamberID h) = Inl e)"
    using a fill_hits_fail [of collection name_map "empty_columns 14"] by simp
next
  assume "card (layers_reached collection layer_bounds) < 3"
  then show "convert_to_cut_analysis collection layer_bounds name_map = Inr (replicate 14 [])"
    using cut_decision [OF assms, of collection name_map]
    by (simp add: empty_columns_replicate)
qed

theorem convert_to_cut_analysis_layers_witness:
  "interval_bounds [[7000, 7010], [7010, 7020], [7020, 7030]] \<and>
   card (layers_reached [test_hit ''1'' 7005, test_hit ''2'' 7015, test_hit ''3'' 7025]
     [[7000, 7010], [7010, 7020], [7020, 7030]]) = 3 \<and>
   (\<exists>out. convert_to_cut_analysis [test_hit ''1'' 7005, test_hit ''2'' 7015, test_hit ''3'' 7025]
       [[7000, 7010], [7010, 7020], [7020, 7030]] (stold test_strtold) = Inr out \<and>
     length out = 14 \<and> length (out ! 7) = 3 \<and>
     row_at out 0 = [1, 2, 1, 13, 1, 0, 0, 7005, 0, 3, 0, 1, 0, 1] \<and>
     row_at out 1 = [1, 2, 2, 13, 1, 0, 0, 7015, 0, 3, 0, 1, 0, 1] \<and>
     row_at out 2 = [1, 2, 3, 13, 1, 0, 0, 7025, 0, 3, 0, 1, 0, 1]) \<and>
   card (layers_reached [test_hit ''1'' 7005, test_hit ''2'' 7015]
     [[7000, 7010], [7010, 7020], [7020, 7030]]) = 2 \<and>
   convert_to_cut_analysis [test_hit ''1'' 7005, test_hit ''2'' 7015]
     [[7000, 7010], [7010, 7020], [7020, 7030]] (stold test_strtold) = Inr (replicate 14 [])"
proof -
  let ?B = "[[7000, 7010], [7010, 7020], [7020, 7030 :: real]]"
  let ?three = "[test_hit ''1'' 7005, test_hit ''2'' 7015, test_hit ''3'' 7025]"
  let ?two = "[test_hit ''1'' 7005, test_hit ''2'' 7015]"
  let ?f = "\<lambda>s. if s = ''1'' then 1 else if s = ''2'' then 2 else (3 :: real)"
  note three = convert_to_cut_analysis_layers
    [OF interval_bounds_raised, of ?three "stold test_strtold" ?f]
  note two = convert_to_cut_analysis_layers
    [OF interval_bounds_raised, of ?two "stold test_strtold" ?f]
  have ok: "\<forall>h\<in>set ?three. stold test_strtold (chamberID h) = Inr (?f (chamberID h))"
    by (simp add: stold_digit test_hit_def)
  have c3: "3 \<le> card (layers_reached ?three ?B)"
    by (simp add: layers_reached_three)
  from three ok c3 obtain out where out:
    "convert_to_cut_analysis ?three ?B (stold test_strtold) = Inr out"
    "length out = 14" "\<forall>c<14. length (out ! c) = length ?three"
    "\<forall>i<length ?three. row_at out i = hit_row ?f (?three ! i)"
    by blast
  from out(3) have "length (out ! 7) = 3" by simp
  moreover from out(4) have "row_at out 0 = hit_row ?f (test_hit ''1'' 7005)"
    and "row_at out 1 = hit_row ?f (test_hit ''2'' 7015)"
    and "row_at out 2 = hit_row ?f (test_hit ''3'' 7025)"
    by simp_all
  then have "row_at out 0 = [1, 2, 1, 13, 1, 0, 0, 7005, 0, 3, 0, 1, 0, 1]"
    and "row_at out 1 = [1, 2, 2, 13, 1, 0, 0, 7015, 0, 3, 0, 1, 0, 1]"
    and "row_at out 2 = [1, 2, 3, 13, 1, 0, 0, 7025, 0, 3, 0, 1, 0, 1]"
    by (simp_all add: hit_row_def test_hit_def)
  moreover have "convert_to_cut_analysis ?two ?B (stold test_strtold) = Inr (replicate 14 [])"
    using two by (simp add: layers_reached_two)
  ultimately show ?thesis
    using out(1,2) by (simp add: interval_bounds_raised layers_reached_three layers_reached_two)
qed

text \<open>
  The claim C1 as it is written fails: three candidate hits in three different layers,
  with chamber ids that are no numbers, make the cut entry point throw
  \<open>std::invalid_argument\<close> instead of returning one row per hit.
\<close>

theorem convert_to_cut_analysis_unparsed_chamber:
  "interval_bounds [[7000, 7010], [7010, 7020], [7020, 7030]] \<and>
   card (layers_reached
     [test_hit ''Layer1'' 7005, test_hit ''Layer2'' 7015, test_hit ''Layer1'' 7025]
     [[7000, 7010], [7010, 7020], [7020, 7030]]) = 3 \<and>
   (\<forall>strtold. ConvertToAnalysis_cut strtold
      [test_hit ''Layer1'' 7005, test_hit ''Layer2'' 7015, test_hit ''Layer1'' 7025]
      [[7000, 7010], [7010, 7020], [7020, 7030]] True = Inl InvalidArgument)"
proof -
  have "ConvertToAnalysis_cut strtold
      [test_hit ''Layer1'' 7005, test_hit ''Layer2'' 7015, test_hit ''Layer1'' 7025]
      [[7000, 7010], [7010, 7020], [7020, 7030]] True = Inl InvalidArgument" for strtold
  proof -
    have "convert_to_cut_analysis
        [test_hit ''Layer1'' 7005, test_hit ''Layer2'' 7015, test_hit ''Layer1'' 7025]
        [[7000, 7010], [7010, 7020], [7020, 7030]] (stold strtold) =
      convert_to_analysis
        [test_hit ''Layer1'' 7005, test_hit ''Layer2'' 7015, test_hit ''Layer1'' 7025]
        (stold strtold)"
      using cut_decision [OF interval_bounds_raised,
          of "[test_hit ''Layer1'' 7005, test_hit ''Layer2'' 7015, test_hit ''Layer1'' 7025]"
            "stold strtold"]
      by (simp add: layers_reached_three)
    also have "\<dots> = Inl InvalidArgument"
      by (simp add: convert_to_analysis_def stold_no_digits test_hit_def)
    finally show ?thesis
      by (simp add: ConvertToAnalysis_cut_def)
  qed
  then show ?thesis
    by (simp add: interval_bounds_raised layers_reached_three)
qed

text \<open>
  A hit that passes the candidate test lies at a height above 7000, so it is inside none
  of the intervals \<open>[0, 10]\<close>, \<open>[10, 20]\<close>, \<open>[20, 30]\<close>: with these layer bounds the cut
  conversion reaches no layer and returns the table of 14 empty columns, whatever the
  collection is.
\<close>

lemma candidate_outside_low_bounds:
  "\<not> (\<exists>hit bound. bound \<in> set [[0, 10], [10, 20], [20, 30]] \<and> candidate hit \<and>
        inside (lv_y (position hit)) bound = Inr True)"
  by (auto simp: candidate_def inside_def at_index_def)

lemma layers_reached_low: "layers_reached collection [[0, 10], [10, 20], [20, 30]] = {}"
  by (auto simp: layers_reached_def upt_rec nth_Cons split: nat.splits)

lemma cut_low_bounds_empty:
  "convert_to_cut_analysis collection [[0, 10], [10, 20], [20, 30]] name_map =
     Inr (replicate 14 [])"
proof -
  have "interval_bounds [[0, 10], [10, 20], [20, 30]]"
    by (simp add: interval_bounds_def)
  from cut_decision [OF this, of collection name_map] show ?thesis
    by (simp add: layers_reached_low empty_columns_replicate)
qed

lemma layers_reached_four:
  "3 \<le> card (layers_reached
     [test_hit c1 7005, test_hit c2 7015, test_hit c3 7025, test_hit c4 5]
     [[7000, 7010], [7010, 7020], [7020, 7030]])"
  by (simp add: layers_reached_def test_hit_def upt_rec)

text \<open>
  C5 (as amended). With \<open>savecut = false\<close>, and with \<open>savecut = true\<close> whenever the layer
  bounds are \<open>[min, max]\<close> intervals and the collection reaches at least 3 distinct layers,
  the cut entry point has the outcome of the plain 14-column conversion of the collection.
  When \<open>std::stold\<close> converts the chamber id of every hit, that outcome is the table of 14
  columns with one row per hit of the collection, in collection order, each row holding
  the data of its hit: every hit is exported, not only the candidates. When it fails on
  the chamber id of some hit, both throw the same error and no table is returned.
\<close>

theorem ConvertToAnalysis_cut_exports:
  "(\<not> savecut \<or>
    (interval_bounds layer_bounds \<and> 3 \<le> card (layers_reached collection layer_bounds))) \<longrightarrow>
   ConvertToAnalysis_cut strtold collection layer_bounds savecut =
     ConvertToAnalysis_hits strtold collection \<and>
   ((\<forall>h\<in>set collection. stold strtold (chamberID h) = Inr (f (chamberID h))) \<longrightarrow>
      (\<exists>out. ConvertToAnalysis_cut strtold collection layer_bounds savecut = Inr out \<and>
         length out = 14 \<and>
         (\<forall>c<14. length (out ! c) = length collection) \<and>
         (\<forall>i<length collection. row_at out i = hit_row f (collection ! i)))) \<and>
   ((\<exists>h\<in>set collection. isl (stold strtold (chamberID h))) \<longrightarrow>
      (\<exists>e. ConvertToAnalysis_cut strtold collection layer_bounds savecut = Inl e \<and>
         ConvertToAnalysis_hits strtold collection = Inl e \<and>
         (\<exists>h\<in>set collection. stold strtold (chamberID h) = Inl e)))"
proof (intro impI)
  assume a: "\<not> savecut \<or>
    (interval_bounds layer_bounds \<and> 3 \<le> card (layers_reached collection layer_bounds))"
  have cut: "ConvertToAnalysis_cut strtold collection layer_bounds savecut =
      fill_hits collection (stold strtold) (empty_columns 14)"
  proof (cases savecut)
    case False
    then show ?thesis
      by (simp add: ConvertToAnalysis_cut_def convert_to_analysis_def)
  next
    case True
    with a have b: "interval_bounds layer_bounds"
      and c: "3 \<le> card (layers_reached collection layer_bounds)"
      by simp_all
    from cut_decision [OF b, of collection "stold strtold"] c True show ?thesis
      by (simp add: ConvertToAnalysis_cut_def convert_to_analysis_def)
  qed
  have plain: "ConvertToAnalysis_hits strtold collection =
      fill_hits collection (stold strtold) (empty_columns 14)"
    by (simp add: ConvertToAnalysis_hits_def convert_to_analysis_def)
  have same: "ConvertToAnalysis_cut strtold collection layer_bounds savecut =
      ConvertToAnalysis_hits strtold collection"
    by (simp add: cut plain)
  have rows: "\<exists>out. ConvertToAnalysis_cut strtold collection layer_bounds savecut = Inr out \<and>
         length out = 14 \<and>
         (\<forall>c<14. length (out ! c) = length collection) \<and>
         (\<forall>i<length collection. row_at out i = hit_row f (collection ! i))"
    if ok: "\<forall>h\<in>set collection. stold strtold (chamberID h) = Inr (f (chamberID h))"
  proof -
    have "ConvertToAnalysis_cut strtold collection layer_bounds savecut =
        Inr (table_of_rows 14 (map (hit_row f) collection))"
      using fill_hits_ok [OF ok, of "[]"] by (simp add: cut empty_columns_table)
    then show ?thesis
      using hit_table_props [of f collection] by blast
  qed
  have fails: "\<exists>e. ConvertToAnalysis_cut strtold collection layer_bounds savecut = Inl e \<and>
         ConvertToAnalysis_hits strtold collection = Inl e \<and>
         (\<exists>h\<in>set collection. stold strtold (chamberID h) = Inl e)"
    if bad: "\<exists>h\<in>set collection. isl (stold strtold (chamberID h))"
    using fill_hits_fail [OF bad, of "empty_columns 14"] by (simp add: cut plain)
  from same rows fails
  show "ConvertToAnalysis_cut strtold collection layer_bounds savecut =
     ConvertToAnalysis_hits strtold collection \<and>
   ((\<forall>h\<in>set collection. stold strtold (chamberID h) = Inr (f (chamberID h))) \<longrightarrow>
      (\<exists>out. ConvertToAnalysis_cut strtold collection layer_bounds savecut = Inr out \<and>
         length out = 14 \<and>
         (\<forall>c<14. length (out ! c) = length collection) \<and>
         (\<forall>i<length collection. row_at out i = hit_row f (collection ! i)))) \<and>
   ((\<exists>h\<in>set collection. isl (stold strtold (chamberID h))) \<longrightarrow>
      (\<exists>e. ConvertToAnalysis_cut strtold collection layer_bounds savecut = Inl e \<and>
         ConvertToAnalysis_hits strtold collection = Inl e \<and>
         (\<exists>h\<in>set collection. stold strtold (chamberID h) = Inl e)))"
    by blast
qed

text \<open>
  The example of the witness: three candidate hits in three layers and a fourth hit at
  height 5, which is no candidate and in no layer; the chamber ids are the numbers 1 to 4.
  The four hits are exported, with and without the cut.
\<close>

theorem ConvertToAnalysis_cut_exports_witness:
  "interval_bounds [[7000, 7010], [7010, 7020], [7020, 7030]] \<and>
   3 \<le> card (layers_reached
     [test_hit ''1'' 7005, test_hit ''2'' 7015, test_hit ''3'' 7025, test_hit ''4'' 5]
     [[7000, 7010], [7010, 7020], [7020, 7030]]) \<and>
   \<not> candidate (test_hit ''4'' 5) \<and>
   ConvertToAnalysis_cut test_strtold
     [test_hit ''1'' 7005, test_hit ''2'' 7015, test_hit ''3'' 7025, test_hit ''4'' 5]
     [[7000, 7010], [7010, 7020], [7020, 7030]] True =
     Inr [[1, 1, 1, 1], [2, 2, 2, 2], [1, 2, 3, 4], [13, 13, 13, 13], [1, 1, 1, 1],
          [0, 0, 0, 0], [0, 0, 0, 0], [7005, 7015, 7025, 5], [0, 0, 0, 0], [3, 3, 3, 3],
          [0, 0, 0, 0], [1, 1, 1, 1], [0, 0, 0, 0], [1, 1, 1, 1]] \<and>
   ConvertToAnalysis_cut test_strtold
     [test_hit ''1'' 7005, test_hit ''2'' 7015, test_hit ''3'' 7025, test_hit ''4'' 5]
     [[7000, 7010], [7010, 7020], [7020, 7030]] False =
     Inr [[1, 1, 1, 1], [2, 2, 2, 2], [1, 2, 3, 4], [13, 13, 13, 13], [1, 1, 1, 1],
          [0, 0, 0, 0], [0, 0, 0, 0], [7005, 7015, 7025, 5], [0, 0, 0, 0], [3, 3, 3, 3],
          [0, 0, 0, 0], [1, 1, 1, 1], [0, 0, 0, 0], [1, 1, 1, 1]] \<and>
   (\<exists>out. ConvertToAnalysis_cut test_strtold
       [test_hit ''1'' 7005, test_hit ''2'' 7015, test_hit ''3'' 7025, test_hit ''4'' 5]
       [[7000, 7010], [7010, 7020], [7020, 7030]] True = Inr out \<and>
     length out = 14 \<and> length (out ! 0) = 4 \<and>
     row_at out 3 = [1, 2, 4, 13, 1, 0, 0, 5, 0, 3, 0, 1, 0, 1])"
proof -
  let ?B = "[[7000, 7010], [7010, 7020], [7020, 7030 :: real]]"
  let ?hits = "[test_hit ''1'' 7005, test_hit ''2'' 7015, test_hit ''3'' 7025, test_hit ''4'' 5]"
  let ?f = "\<lambda>s. if s = ''1'' then 1 else if s = ''2'' then 2 else if s = ''3'' then 3
      else (4 :: real)"
  let ?table = "[[1, 1, 1, 1], [2, 2, 2, 2], [1, 2, 3, 4], [13, 13, 13, 13], [1, 1, 1, 1],
          [0, 0, 0, 0], [0, 0, 0, 0], [7005, 7015, 7025, 5], [0, 0, 0, 0], [3, 3, 3, 3],
          [0, 0, 0, 0], [1, 1, 1, 1], [0, 0, 0, 0], [1, 1, 1, 1 :: real]]"
  note with_cut = ConvertToAnalysis_cut_exports [of True ?B ?hits test_strtold ?f]
  note without_cut = ConvertToAnalysis_cut_exports [of False ?B ?hits test_strtold ?f]
  have ok: "\<forall>h\<in>set ?hits. stold test_strtold (chamberID h) = Inr (?f (chamberID h))"
    by (simp add: stold_digit test_hit_def)
  have plain: "ConvertToAnalysis_hits test_strtold ?hits = Inr ?table"
    by (simp add: ConvertToAnalysis_hits_def convert_to_analysis_def empty_columns_def
        upt_rec append_hit_def push_back_def stold_digit test_hit_def GetPDGEncoding_def)
  have no: "\<not> candidate (test_hit ''4'' 5)"
    by (simp add: candidate_def test_hit_def)
  have t: "ConvertToAnalysis_cut test_strtold ?hits ?B True = Inr ?table"
    using with_cut plain by (simp add: interval_bounds_raised layers_reached_four)
  have f: "ConvertToAnalysis_cut test_strtold ?hits ?B False = Inr ?table"
    using without_cut plain by simp
  from with_cut ok obtain out where out:
    "ConvertToAnalysis_cut test_strtold ?hits ?B True = Inr out" "length out = 14"
    "\<forall>c<14. length (out ! c) = length ?hits"
    "\<forall>i<length ?hits. row_at out i = hit_row ?f (?hits ! i)"
    using interval_bounds_raised layers_reached_four [of "''1''" "''2''" "''3''" "''4''"]
    by blast
  from out(3) have "length (out ! 0) = 4" by simp
  moreover from out(4) have "row_at out 3 = hit_row ?f (test_hit ''4'' 5)" by simp
  then have "row_at out 3 = [1, 2, 4, 13, 1, 0, 0, 5, 0, 3, 0, 1, 0, 1]"
    by (simp add: hit_row_def test_hit_def)
  ultimately have "\<exists>out. ConvertToAnalysis_cut test_strtold ?hits ?B True = Inr out \<and>
     length out = 14 \<and> length (out ! 0) = 4 \<and>
     row_at out 3 = [1, 2, 4, 13, 1, 0, 0, 5, 0, 3, 0, 1, 0, 1]"
    using out(1,2) by blast
  with t f no show ?thesis
    using interval_bounds_raised layers_reached_four [of "''1''" "''2''" "''3''" "''4''"]
    by blast
qed

text \<open>
  The claim C5 as it is written fails: for three candidate hits in three layers whose
  chamber ids \<open>Layer1\<close>, \<open>Layer2\<close>, \<open>Layer3\<close> are no numbers, the cut entry point returns no
  table with either value of \<open>savecut\<close>, it throws \<open>std::invalid_argument\<close>, and no hit is
  exported.
\<close>

theorem ConvertToAnalysis_cut_no_export:
  "interval_bounds [[7000, 7010], [7010, 7020], [7020, 7030]] \<and>
   3 \<le> card (layers_reached
     [test_hit ''Layer1'' 7005, test_hit ''Layer2'' 7015, test_hit ''Layer3'' 7025]
     [[7000, 7010], [7010, 7020], [7020, 7030]]) \<and>
   (\<forall>strtold savecut. ConvertToAnalysis_cut strtold
      [test_hit ''Layer1'' 7005, test_hit ''Layer2'' 7015, test_hit ''Layer3'' 7025]
      [[7000, 7010], [7010, 7020], [7020, 7030]] savecut = Inl InvalidArgument) \<and>
   \<not> (\<exists>strtold savecut out. ConvertToAnalysis_cut strtold
      [test_hit ''Layer1'' 7005, test_hit ''Layer2'' 7015, test_hit ''Layer3'' 7025]
      [[7000, 7010], [7010, 7020], [7020, 7030]] savecut = Inr out)"
proof -
  let ?B = "[[7000, 7010], [7010, 7020], [7020, 7030 :: real]]"
  let ?hits = "[test_hit ''Layer1'' 7005, test_hit ''Layer2'' 7015, test_hit ''Layer3'' 7025]"
  have plain: "convert_to_analysis ?hits (stold strtold) = Inl InvalidArgument" for strtold
    by (simp add: convert_to_analysis_def stold_no_digits test_hit_def)
  have cut: "convert_to_cut_analysis ?hits ?B (stold strtold) = Inl InvalidArgument" for strtold
    using cut_decision [OF interval_bounds_raised, of ?hits "stold strtold"]
    by (simp add: layers_reached_three plain)
  have all: "ConvertToAnalysis_cut strtold ?hits ?B savecut = Inl InvalidArgument"
    for strtold savecut
    by (simp add: ConvertToAnalysis_cut_def plain cut)
  then show ?thesis
    by (simp add: interval_bounds_raised layers_reached_three)
qed

section \<open>Properties of the generator-particle conversion\<close>

lemma upt_20:
  "[0..<20] = [0, 1, 2, 3, 4, 5, 6, 7, 8, 9, 10, 11, 12, 13, 14, 15, 16, 17, 18, 19]"
  by (simp add: upt_rec)

lemma fold_select:
  "fold (\<lambda>p pvec. if P p then pvec @ [p] else pvec) particles pvec = pvec @ filter P particles"
  by (induction particles arbitrary: pvec) simp_all

lemma select_particles_filter:
  "select_particles particles saveall = filter (\<lambda>p. saveall \<or> 0 \<le> G4index p) particles"
  by (simp add: select_particles_def fold_select)

lemma append_particle_table:
  "append_particle pT eta phi p (table_of_rows 20 rows) =
   table_of_rows 20 (rows @ [particle_row pT eta phi p])"
  by (simp add: append_particle_def table_of_rows_def upt_20 push_back_def particle_row_def)

lemma fold_append_particle:
  "fold (append_particle pT eta phi) pvec (table_of_rows 20 rows) =
   table_of_rows 20 (rows @ map (particle_row pT eta phi) pvec)"
  by (induction pvec arbitrary: rows) (simp_all add: append_particle_table)

lemma ConvertToAnalysis_particles_table:
  "ConvertToAnalysis_particles pT eta phi particles saveall =
   table_of_rows 20 (map (particle_row pT eta phi)
     (filter (\<lambda>p. saveall \<or> 0 \<le> G4index p) particles))"
  using fold_append_particle [of pT eta phi _ "[]"]
  by (simp add: ConvertToAnalysis_particles_def select_particles_filter empty_columns_table)

lemma particle_table_props:
  "length (table_of_rows 20 (map (particle_row pT eta phi) ps)) = 20 \<and>
   (\<forall>c<20. length (table_of_rows 20 (map (particle_row pT eta phi) ps) ! c) = length ps) \<and>
   (\<forall>i<length ps. row_at (table_of_rows 20 (map (particle_row pT eta phi) ps)) i =
      particle_row pT eta phi (ps ! i))"
  using table_of_rows_props [of "map (particle_row pT eta phi) ps" 20]
  by (simp add: particle_row_def)

text \<open>
  C4. The conversion of a generator-particle list returns 20 columns. With
  \<open>saveall = false\<close> it has exactly one row per particle whose link to the transported
  track is not negative, in input order, and no other row; with \<open>saveall = true\<close> it has
  one row per input particle. Each row holds, in column order: index, track link, PDG
  code, status, vertex e, px, py, pz, momentum e, px, py, pz, mother 1 and 2, daughter 1
  and 2, mass, and the transverse momentum, pseudorapidity and azimuth of the momentum.
\<close>

theorem ConvertToAnalysis_particles_rows:
  "length (ConvertToAnalysis_particles pT eta phi particles saveall) = 20 \<and>
   (\<not> saveall \<longrightarrow>
      (\<forall>c<20. length (ConvertToAnalysis_particles pT eta phi particles saveall ! c) =
         length (filter (\<lambda>p. 0 \<le> G4index p) particles)) \<and>
      (\<forall>i<length (filter (\<lambda>p. 0 \<le> G4index p) particles).
         row_at (ConvertToAnalysis_particles pT eta phi particles saveall) i =
           particle_row pT eta phi (filter (\<lambda>p. 0 \<le> G4index p) particles ! i))) \<and>
   (saveall \<longrightarrow>
      (\<forall>c<20. length (ConvertToAnalysis_particles pT eta phi particles saveall ! c) =
         length particles) \<and>
      (\<forall>i<length particles.
         row_at (ConvertToAnalysis_particles pT eta phi particles saveall) i =
           particle_row pT eta phi (particles ! i)))"
proof (intro conjI impI)
  show "length (ConvertToAnalysis_particles pT eta phi particles saveall) = 20"
    by (simp add: ConvertToAnalysis_particles_table table_of_rows_def)
next
  assume "\<not> saveall"
  then have eq: "ConvertToAnalysis_particles pT eta phi particles saveall =
      table_of_rows 20 (map (particle_row pT eta phi) (filter (\<lambda>p. 0 \<le> G4index p) particles))"
    by (simp add: ConvertToAnalysis_particles_table)
  show "\<forall>c<20. length (ConvertToAnalysis_particles pT eta phi particles saveall ! c) =
         length (filter (\<lambda>p. 0 \<le> G4index p) particles)"
    unfolding eq using particle_table_props [of pT eta phi] by blast
  show "\<forall>i<length (filter (\<lambda>p. 0 \<le> G4index p) particles).
         row_at (ConvertToAnalysis_particles pT eta phi particles saveall) i =
           particle_row pT eta phi (filter (\<lambda>p. 0 \<le> G4index p) particles ! i)"
    unfolding eq using particle_table_props [of pT eta phi] by blast
next
  assume "saveall"
  then have eq: "ConvertToAnalysis_particles pT eta phi particles saveall =
      table_of_rows 20 (map (particle_row pT eta phi) particles)"
    by (simp add: ConvertToAnalysis_particles_table)
  show "\<forall>c<20. length (ConvertToAnalysis_particles pT eta phi particles saveall ! c) =
         length particles"
    unfolding eq using particle_table_props [of pT eta phi] by blast
  show "\<forall>i<length particles.
         row_at (ConvertToAnalysis_particles pT eta phi particles saveall) i =
           particle_row pT eta phi (particles ! i)"
    unfolding eq using particle_table_props [of pT eta phi] by blast
qed

theorem ConvertToAnalysis_particles_rows_witness:
  "length (ConvertToAnalysis_particles (\<lambda>v. 5) (\<lambda>v. 0) (\<lambda>v. 1)
      [test_particle 0 (- 1), test_particle 1 0, test_particle 2 7] False ! 1) = 2 \<and>
   row_at (ConvertToAnalysis_particles (\<lambda>v. 5) (\<lambda>v. 0) (\<lambda>v. 1)
      [test_particle 0 (- 1), test_particle 1 0, test_particle 2 7] False) 1 =
     [2, 7, 13, 1, 0, 1, 2, 3, 10, 3, 4, 0, 0, 0, 0, 0, 1, 5, 0, 1] \<and>
   length (ConvertToAnalysis_particles (\<lambda>v. 5) (\<lambda>v. 0) (\<lambda>v. 1)
      [test_particle 0 (- 1), test_particle 1 0, test_particle 2 7] True ! 1) = 3 \<and>
   row_at (ConvertToAnalysis_particles (\<lambda>v. 5) (\<lambda>v. 0) (\<lambda>v. 1)
      [test_particle 0 (- 1), test_particle 1 0, test_particle 2 7] True) 0 =
     [0, - 1, 13, 1, 0, 1, 2, 3, 10, 3, 4, 0, 0, 0, 0, 0, 1, 5, 0, 1]"
proof -
  let ?ps = "[test_particle 0 (- 1), test_particle 1 0, test_particle 2 7]"
  have kept: "filter (\<lambda>p. 0 \<le> G4index p) ?ps = [test_particle 1 0, test_particle 2 7]"
    by (simp add: test_particle_def)
  note no = ConvertToAnalysis_particles_rows [of "\<lambda>v. 5" "\<lambda>v. 0" "\<lambda>v. 1" ?ps False]
  note all = ConvertToAnalysis_particles_rows [of "\<lambda>v. 5" "\<lambda>v. 0" "\<lambda>v. 1" ?ps True]
  have "length (ConvertToAnalysis_particles (\<lambda>v. 5) (\<lambda>v. 0) (\<lambda>v. 1) ?ps False ! 1) = 2"
    using no kept by simp
  moreover have "row_at (ConvertToAnalysis_particles (\<lambda>v. 5) (\<lambda>v. 0) (\<lambda>v. 1) ?ps False) 1 =
      particle_row (\<lambda>v. 5) (\<lambda>v. 0) (\<lambda>v. 1) (test_particle 2 7)"
    using no kept by simp
  moreover have "length (ConvertToAnalysis_particles (\<lambda>v. 5) (\<lambda>v. 0) (\<lambda>v. 1) ?ps True ! 1) = 3"
    using all by simp
  moreover have "row_at (ConvertToAnalysis_particles (\<lambda>v. 5) (\<lambda>v. 0) (\<lambda>v. 1) ?ps True) 0 =
      particle_row (\<lambda>v. 5) (\<lambda>v. 0) (\<lambda>v. 1) (test_particle 0 (- 1))"
    using all by simp
  ultimately show ?thesis
    by (simp add: particle_row_def test_particle_def)
qed

section \<open>Properties of the extra-block conversion\<close>

lemma fold_push_back_column:
  "i < length out \<Longrightarrow> fold (\<lambda>v. push_back i v) vs out = out[i := out ! i @ vs]"
  by (induction vs arbitrary: out) (simp_all add: push_back_def)

lemma extra_columns_ok:
  "\<forall>i\<in>set is. i < length extra \<Longrightarrow>
   extra_columns extra is out = Inr (out @ replicate (length is) [])"
  by (induction "is" arbitrary: out) (simp_all add: at_index_def replicate_append_same)

lemma extra_columns_fail:
  "\<exists>i\<in>set is. \<not> i < length extra \<Longrightarrow> extra_columns extra is out = Inl IndexOutOfBounds"
  by (induction "is" arbitrary: out) (auto simp: at_index_def)

lemma extra_copy_ok:
  "\<forall>i\<in>set is. i < length extra \<and> i < length out \<Longrightarrow> distinct is \<Longrightarrow>
   \<exists>out'. extra_copy extra is out = Inr out' \<and> length out' = length out \<and>
     (\<forall>j<length out. out' ! j = (if j \<in> set is then out ! j @ extra ! j else out ! j))"
proof (induction "is" arbitrary: out)
  case Nil
  then show ?case by simp
next
  case (Cons i "is")
  let ?out = "out[i := out ! i @ extra ! i]"
  have step: "extra_copy extra (i # is) out = extra_copy extra is ?out"
    using Cons.prems by (simp add: at_index_def fold_push_back_column)
  have "\<forall>i\<in>set is. i < length extra \<and> i < length ?out" "distinct is"
    using Cons.prems by simp_all
  from Cons.IH [OF this] obtain out' where out':
    "extra_copy extra is ?out = Inr out'" "length out' = length ?out"
    "\<forall>j<length ?out. out' ! j = (if j \<in> set is then ?out ! j @ extra ! j else ?out ! j)"
    by blast
  have "\<forall>j<length out. out' ! j = (if j \<in> set (i # is) then out ! j @ extra ! j else out ! j)"
    using out'(3) Cons.prems by (auto simp: nth_list_update)
  with step out'(1,2) show ?case by simp
qed

lemma ConvertToAnalysis_extra_ok:
  assumes "16 \<le> length extra"
  shows "ConvertToAnalysis_extra extra = Inr (take 16 extra)"
proof -
  have cols: "extra_columns extra [0..<16] [] = Inr (replicate 16 [])"
    using assms extra_columns_ok [of "[0..<16]" extra "[]"] by simp
  obtain out' where out': "extra_copy extra [0..<16] (replicate 16 []) = Inr out'"
    "length out' = 16"
    "\<forall>j<16. out' ! j = (if j \<in> set [0..<16] then replicate 16 [] ! j @ extra ! j
       else replicate 16 [] ! j)"
    using assms extra_copy_ok [of "[0..<16]" extra "replicate 16 []"] by auto
  have "out' = take 16 extra"
    using out'(2,3) assms by (intro nth_equalityI) simp_all
  with cols out'(1) show ?thesis
    by (simp add: ConvertToAnalysis_extra_def)
qed

lemma ConvertToAnalysis_extra_short:
  assumes "length extra < 16"
  shows "ConvertToAnalysis_extra extra = Inl IndexOutOfBounds"
proof -
  have "\<exists>i\<in>set [0..<16]. \<not> i < length extra"
    using assms by (intro bexI [of _ 15]) simp_all
  then have "extra_columns extra [0..<16] [] = Inl IndexOutOfBounds"
    by (rule extra_columns_fail)
  then show ?thesis
    by (simp add: ConvertToAnalysis_extra_def)
qed

text \<open>
  C10. For every sequence of columns with at least 16 entries, the extra-block conversion
  returns exactly 16 columns, and output column \<open>i\<close> is input column \<open>i\<close> as it is, for
  \<open>i\<close> from 0 to 15; further columns are ignored, and the columns need not have the same
  length. A sequence with fewer than 16 columns is outside the precondition: the unchecked
  read of a missing column is undefined behaviour. The empty extra block of tracking.hh
  has its 16 columns and is returned unchanged.
\<close>

theorem ConvertToAnalysis_extra_copy:
  "(16 \<le> length extra \<longrightarrow>
      (\<exists>out. ConvertToAnalysis_extra extra = Inr out \<and> length out = 16 \<and>
         (\<forall>i<16. out ! i = extra ! i))) \<and>
   (length extra < 16 \<longrightarrow> ConvertToAnalysis_extra extra = Inl IndexOutOfBounds) \<and>
   ConvertToAnalysis_extra EmptyExtra = Inr EmptyExtra"
proof (intro conjI impI)
  assume "16 \<le> length extra"
  then show "\<exists>out. ConvertToAnalysis_extra extra = Inr out \<and> length out = 16 \<and>
         (\<forall>i<16. out ! i = extra ! i)"
    using ConvertToAnalysis_extra_ok [of extra] by simp
next
  assume "length extra < 16"
  then show "ConvertToAnalysis_extra extra = Inl IndexOutOfBounds"
    by (rule ConvertToAnalysis_extra_short)
next
  show "ConvertToAnalysis_extra EmptyExtra = Inr EmptyExtra"
    using ConvertToAnalysis_extra_ok [of EmptyExtra] by (simp add: EmptyExtra_def)
qed

theorem ConvertToAnalysis_extra_copy_witness:
  "16 \<le> length [[1], [], [2, 3], [], [], [], [], [], [], [], [], [], [], [], [], [4], [5 :: real]] \<and>
   (\<exists>out. ConvertToAnalysis_extra
       [[1], [], [2, 3], [], [], [], [], [], [], [], [], [], [], [], [], [4], [5]] = Inr out \<and>
     length out = 16 \<and> out ! 0 = [1] \<and> out ! 2 = [2, 3] \<and> out ! 15 = [4]) \<and>
   length [[1], [2 :: real]] < 16 \<and>
   ConvertToAnalysis_extra [[1], [2]] = Inl IndexOutOfBounds"
  using ConvertToAnalysis_extra_copy
      [of "[[1], [], [2, 3], [], [], [], [], [], [], [], [], [], [], [], [], [4], [5]]"]
    ConvertToAnalysis_extra_copy [of "[[1], [2]]"]
  by auto

end
